theory Spec2Isabelle
  imports Main
begin

section \<open>JavaScript values\<close>

text \<open>
  The values the TypeScript code handles at run time where its static types say
  nothing: the value caught by \<^verbatim>\<open>catch (error: any)\<close> in \<^verbatim>\<open>AuthService.signUp\<close>, and the
  query and body objects the task controller receives. An object is the list of the
  properties visible on it, in insertion order; a number is an integer (no other
  number occurs in the code).
\<close>

datatype js_value =
    JUndefined
  | JNull
  | JBoolean bool
  | JNumber int
  | JString string
  | JArray "js_value list"
  | JFunction "(string \<times> js_value) list"
  | JObject "(string \<times> js_value) list"

type_synonym js_object = "(string \<times> js_value) list"

text \<open>Truthiness, as \<^verbatim>\<open>error && ...\<close> and \<^verbatim>\<open>if (!task)\<close> test it.\<close>

fun truthy :: "js_value \<Rightarrow> bool" where
  "truthy JUndefined = False"
| "truthy JNull = False"
| "truthy (JBoolean b) = b"
| "truthy (JNumber n) = (n \<noteq> 0)"
| "truthy (JString s) = (s \<noteq> [])"
| "truthy (JArray xs) = True"
| "truthy (JFunction ps) = True"
| "truthy (JObject ps) = True"

text \<open>The \<^verbatim>\<open>typeof\<close> operator; \<^verbatim>\<open>typeof null\<close> is \<^verbatim>\<open>'object'\<close>.\<close>

fun typeof :: "js_value \<Rightarrow> string" where
  "typeof JUndefined = ''undefined''"
| "typeof JNull = ''object''"
| "typeof (JBoolean b) = ''boolean''"
| "typeof (JNumber n) = ''number''"
| "typeof (JString s) = ''string''"
| "typeof (JArray xs) = ''object''"
| "typeof (JFunction ps) = ''function''"
| "typeof (JObject ps) = ''object''"

text \<open>
  \<^verbatim>\<open>key in value\<close> for a property name that is not an array index; an array
  carries its elements only. On a primitive JavaScript raises a TypeError; the code
  reaches \<^verbatim>\<open>in\<close> only behind the \<^verbatim>\<open>typeof error === 'object'\<close> test, so the model
  answers \<open>False\<close> there.
\<close>

fun has_property :: "string \<Rightarrow> js_value \<Rightarrow> bool" where
  "has_property k (JObject ps) = (map_of ps k \<noteq> None)"
| "has_property k (JFunction ps) = (map_of ps k \<noteq> None)"
| "has_property k v = False"

text \<open>Property read \<^verbatim>\<open>value.key\<close>: \<^verbatim>\<open>undefined\<close> when the property is absent.\<close>

fun get_property :: "js_value \<Rightarrow> string \<Rightarrow> js_value" where
  "get_property (JObject ps) k = (case map_of ps k of None \<Rightarrow> JUndefined | Some v \<Rightarrow> v)"
| "get_property (JFunction ps) k = (case map_of ps k of None \<Rightarrow> JUndefined | Some v \<Rightarrow> v)"
| "get_property v k = JUndefined"

text \<open>\<^verbatim>\<open>Object.keys(o)\<close>: the names of the object's properties.\<close>

definition Object_keys :: "js_object \<Rightarrow> string list" where
  "Object_keys obj = map fst obj"

section \<open>Exceptions\<close>

text \<open>
  The exceptions of \<^verbatim>\<open>@nestjs/common\<close> that the code raises, each with its optional
  message, and what a caller of a method may see thrown: one of these, or any other
  value passed through unchanged.
\<close>

datatype http_exception =
    ConflictException "string option"
  | InternalServerErrorException "string option"
  | UnauthorizedException "string option"
  | NotFoundException "string option"

datatype thrown = HttpException http_exception | Raw js_value

section \<open>The authentication service\<close>

text \<open>
  \<^verbatim>\<open>AuthService\<close> (src/auth). Its collaborators are injected or imported libraries and
  are parameters here: the user repository of TypeORM, bcrypt, and the JWT service.
  The repository works on a store of type \<open>'s\<close>; \<^verbatim>\<open>save\<close> either throws a value or
  gives the new store. The salt that \<^verbatim>\<open>bcrypt.genSalt()\<close> draws is an argument of
  \<open>signUp\<close>.
\<close>

record User =
  userId :: "nat option"
  username :: string
  password :: string

datatype AuthCredentialsDto = AuthCredentialsDto string string

record 's Repository =
  findOne :: "'s \<Rightarrow> string \<Rightarrow> User option"
  save :: "User \<Rightarrow> 's \<Rightarrow> js_value + 's"

record Bcrypt =
  bcrypt_hash :: "string \<Rightarrow> string \<Rightarrow> string"
  bcrypt_compare :: "string \<Rightarrow> string \<Rightarrow> bool"

record JwtService =
  jwt_sign :: "js_object \<Rightarrow> string"

record SignInResult =
  accessToken :: string

text \<open>
  \<^verbatim>\<open>usersRepository.create({ username, password: hashedPassword })\<close>: a new entity
  whose id the store has not generated yet.
\<close>

definition create :: "string \<Rightarrow> string \<Rightarrow> User" where
  "create name hashedPassword =
     \<lparr>userId = None, username = name, password = hashedPassword\<rparr>"

text \<open>The test of the \<^verbatim>\<open>catch\<close> block in \<^verbatim>\<open>signUp\<close>, conjunct by conjunct.\<close>

definition isDuplicateUsername :: "js_value \<Rightarrow> bool" where
  "isDuplicateUsername error \<longleftrightarrow>
     truthy error \<and>
     typeof error = ''object'' \<and>
     has_property ''code'' error \<and>
     get_property error ''code'' = JString ''23505''"

fun signUp ::
  "'s Repository \<Rightarrow> Bcrypt \<Rightarrow> string \<Rightarrow> AuthCredentialsDto \<Rightarrow> 's \<Rightarrow> thrown + unit \<times> 's" where
  "signUp usersRepository bcrypt salt (AuthCredentialsDto name pass) st =
     (let hashedPassword = bcrypt_hash bcrypt pass salt;
          user = create name hashedPassword
      in case save usersRepository user st of
           Inr st' \<Rightarrow> Inr ((), st')
         | Inl error \<Rightarrow>
             if isDuplicateUsername error
             then Inl (HttpException (ConflictException (Some ''Username already exists'')))
             else Inl (HttpException (InternalServerErrorException None)))"

fun signIn ::
  "'s Repository \<Rightarrow> Bcrypt \<Rightarrow> JwtService \<Rightarrow> AuthCredentialsDto \<Rightarrow> 's \<Rightarrow> thrown + SignInResult" where
  "signIn usersRepository bcrypt jwtService (AuthCredentialsDto name pass) st =
     (case findOne usersRepository st name of
        None \<Rightarrow>
          Inl (HttpException (UnauthorizedException (Some ''Please check your login credentials'')))
      | Some user \<Rightarrow>
          if bcrypt_compare bcrypt pass (password user)
          then (let payload = [(''username'', JString name)];
                    token = jwt_sign jwtService payload
                in Inr \<lparr>accessToken = token\<rparr>)
          else
            Inl (HttpException (UnauthorizedException (Some ''Please check your login credentials''))))"

section \<open>The users table\<close>

text \<open>
  Modelled from the spec: the Credential Store behind the injected repository. The
  \<^verbatim>\<open>User\<close> entity and the database are not among the sources; the spec gives a
  Users table keyed by a generated id with a unique index on \<^verbatim>\<open>username\<close>, whose
  constraint the store itself enforces. A violated unique index reaches the caller of
  \<^verbatim>\<open>save\<close> as the driver's error object with SQLSTATE \<^verbatim>\<open>'23505'\<close> in its
  \<^verbatim>\<open>code\<close> property.
\<close>

record users_table =
  rows :: "User list"
  nextId :: nat

definition uniqueViolation :: js_value where
  "uniqueViolation =
     JObject [(''name'', JString ''QueryFailedError''), (''code'', JString ''23505'')]"

definition table_findOne :: "users_table \<Rightarrow> string \<Rightarrow> User option" where
  "table_findOne st name = find (\<lambda>row. username row = name) (rows st)"

definition table_save :: "User \<Rightarrow> users_table \<Rightarrow> js_value + users_table" where
  "table_save user st =
     (case find (\<lambda>row. username row = username user) (rows st) of
        Some row \<Rightarrow> Inl uniqueViolation
      | None \<Rightarrow>
          Inr \<lparr>rows = rows st @ [user\<lparr>userId := Some (nextId st)\<rparr>],
               nextId = Suc (nextId st)\<rparr>)"

definition usersTable :: "users_table Repository" where
  "usersTable = \<lparr>findOne = table_findOne, save = table_save\<rparr>"

section \<open>Concrete collaborators for evaluation\<close>

text \<open>
  Stand-ins for bcrypt and the JWT library, and two stores, at which the theorems
  below are evaluated. The stand-in hash keeps the salt in front of the password; the
  stand-in token spells out the username claim.
\<close>

definition plainBcrypt :: Bcrypt where
  "plainBcrypt =
     \<lparr>bcrypt_hash = (\<lambda>pass salt. salt @ pass),
      bcrypt_compare = (\<lambda>pass hashed. drop (length hashed - length pass) hashed = pass)\<rparr>"

definition plainJwt :: JwtService where
  "plainJwt =
     \<lparr>jwt_sign = (\<lambda>payload.
         case get_property (JObject payload) ''username'' of
           JString name \<Rightarrow> ''jwt.'' @ name
         | _ \<Rightarrow> ''jwt.'')\<rparr>"

definition noUsers :: users_table where
  "noUsers = \<lparr>rows = [], nextId = 0\<rparr>"

definition alice :: User where
  "alice = \<lparr>userId = Some 0, username = ''alice'', password = ''salt'' @ ''Passw0rd!''\<rparr>"

definition onlyAlice :: users_table where
  "onlyAlice = \<lparr>rows = [alice], nextId = 1\<rparr>"

text \<open>A repository whose \<^verbatim>\<open>save\<close> always throws the given value.\<close>

definition throwing :: "js_value \<Rightarrow> unit Repository" where
  "throwing error = \<lparr>findOne = (\<lambda>st name. None), save = (\<lambda>user st. Inl error)\<rparr>"

section \<open>The task controller\<close>

text \<open>
  \<^verbatim>\<open>TasksController\<close>. The injected \<^verbatim>\<open>TasksService\<close> is a parameter: the six methods
  the controller calls, each a step on the service's state of type \<open>'s\<close> that returns
  a value or throws. Tasks, query objects and bodies are JavaScript values as they
  arrive.
\<close>

type_synonym 's call = "'s \<Rightarrow> (thrown + js_value) \<times> 's"

record 's TasksService =
  getTaskWithFilters :: "js_object \<Rightarrow> 's call"
  getAllTasks :: "'s call"
  createTask :: "js_object \<Rightarrow> 's call"
  getTaskById :: "string \<Rightarrow> 's call"
  removeTask :: "string \<Rightarrow> 's call"
  updateTaskStatus :: "string \<Rightarrow> js_value \<Rightarrow> 's call"

definition TasksController_getTasks :: "'s TasksService \<Rightarrow> js_object \<Rightarrow> 's call" where
  "TasksController_getTasks tasksService filtersDto =
     (if length (Object_keys filtersDto) > 0
      then getTaskWithFilters tasksService filtersDto
      else getAllTasks tasksService)"

definition TasksController_createTask :: "'s TasksService \<Rightarrow> js_object \<Rightarrow> 's call" where
  "TasksController_createTask tasksService createTaskDto =
     createTask tasksService createTaskDto"

definition TasksController_getById :: "'s TasksService \<Rightarrow> string \<Rightarrow> 's call" where
  "TasksController_getById tasksService i = getTaskById tasksService i"

definition TasksController_removeTask :: "'s TasksService \<Rightarrow> string \<Rightarrow> 's call" where
  "TasksController_removeTask tasksService i = removeTask tasksService i"

definition TasksController_updateTaskStatus ::
  "'s TasksService \<Rightarrow> string \<Rightarrow> js_value \<Rightarrow> 's call" where
  "TasksController_updateTaskStatus tasksService i status =
     updateTaskStatus tasksService i status"

text \<open>
  A request as the framework holds it when it binds a handler's parameters: the
  headers (names in lower case, as Node delivers them), \<^verbatim>\<open>request.user\<close>, which an
  authentication guard sets when one runs, the parsed query and the parsed body.
\<close>

record request =
  headers :: "(string \<times> string) list"
  user :: "User option"
  query :: js_object
  body :: js_object

text \<open>
  The routes the decorators declare; the routes under \<^verbatim>\<open>:id\<close> carry the id their path
  binds. The parameter decorators are \<^verbatim>\<open>@Query()\<close>, \<^verbatim>\<open>@Body()\<close>, \<^verbatim>\<open>@Param('id')\<close>
  and \<^verbatim>\<open>@Body('status')\<close>: no handler has a parameter bound to the request, its
  headers or its user. The class carries \<^verbatim>\<open>@Controller('tasks')\<close> and each method its
  route decorator; neither carries \<^verbatim>\<open>@UseGuards\<close>, so a routed request reaches its
  handler as it is.
\<close>

datatype route =
    GetTasks
  | CreateTask
  | GetById string
  | RemoveTask string
  | UpdateTaskStatus string

fun TasksController :: "'s TasksService \<Rightarrow> request \<Rightarrow> route \<Rightarrow> 's call" where
  "TasksController tasksService req GetTasks =
     TasksController_getTasks tasksService (query req)"
| "TasksController tasksService req CreateTask =
     TasksController_createTask tasksService (body req)"
| "TasksController tasksService req (GetById i) =
     TasksController_getById tasksService i"
| "TasksController tasksService req (RemoveTask i) =
     TasksController_removeTask tasksService i"
| "TasksController tasksService req (UpdateTaskStatus i) =
     TasksController_updateTaskStatus tasksService i
       (get_property (JObject (body req)) ''status'')"

section \<open>Auxiliary facts\<close>

text \<open>
  The \<^verbatim>\<open>catch\<close> test of \<open>signUp\<close> holds of exactly the objects whose \<^verbatim>\<open>code\<close>
  property is the string \<^verbatim>\<open>'23505'\<close>.
\<close>

lemma isDuplicateUsername_iff:
  "isDuplicateUsername e \<longleftrightarrow>
     (\<exists>ps. e = JObject ps \<and> map_of ps ''code'' = Some (JString ''23505''))"
  by (cases e) (auto simp: isDuplicateUsername_def split: option.splits)

lemma find_append_fresh:
  "find P xs = None \<Longrightarrow> P x \<Longrightarrow> find P (xs @ [x]) = Some x"
  by (induction xs) (auto split: if_splits)

text \<open>
  On the users table a username that a stored user already has is refused with the
  conflict exception, whatever password comes with it.
\<close>

lemma signUp_existing_username:
  assumes "findOne usersTable st name = Some u"
  shows "signUp usersTable bc salt (AuthCredentialsDto name pass) st =
           Inl (HttpException (ConflictException (Some ''Username already exists'')))"
proof -
  from assms have "save usersTable (create name (bcrypt_hash bc pass salt)) st = Inl uniqueViolation"
    by (simp add: usersTable_def table_findOne_def table_save_def create_def)
  moreover have "isDuplicateUsername uniqueViolation"
    by (simp add: isDuplicateUsername_iff uniqueViolation_def)
  ultimately show ?thesis by simp
qed

lemmas example_defs =
  usersTable_def table_findOne_def table_save_def plainBcrypt_def plainJwt_def
  noUsers_def onlyAlice_def alice_def create_def uniqueViolation_def throwing_def

section \<open>Sign-in and sign-up\<close>

text \<open>
  C3: \<open>signIn\<close> with a username that no stored user has, and \<open>signIn\<close> with a stored
  username and a password that bcrypt does not verify against the stored hash, both
  fail, and with the same exception: the unauthorized exception carrying the one
  message, so the caller cannot tell the two apart.
\<close>

theorem signIn_invalid_credentials:
  "(findOne repo st name = None \<longrightarrow>
      signIn repo bc jwt (AuthCredentialsDto name pass) st =
        Inl (HttpException (UnauthorizedException (Some ''Please check your login credentials''))))
   \<and> (\<forall>user. findOne repo st name = Some user \<longrightarrow> \<not> bcrypt_compare bc pass (password user) \<longrightarrow>
      signIn repo bc jwt (AuthCredentialsDto name pass) st =
        Inl (HttpException (UnauthorizedException (Some ''Please check your login credentials''))))"
  by simp

theorem signIn_invalid_credentials_witness:
  "signIn usersTable plainBcrypt plainJwt (AuthCredentialsDto ''bob'' ''Passw0rd!'') onlyAlice =
     Inl (HttpException (UnauthorizedException (Some ''Please check your login credentials'')))
   \<and> signIn usersTable plainBcrypt plainJwt (AuthCredentialsDto ''alice'' ''wrong'') onlyAlice =
     Inl (HttpException (UnauthorizedException (Some ''Please check your login credentials'')))"
proof -
  have absent: "findOne usersTable onlyAlice ''bob'' = None"
    by (simp add: example_defs)
  have present: "findOne usersTable onlyAlice ''alice'' = Some alice"
    by (simp add: example_defs)
  have wrong: "\<not> bcrypt_compare plainBcrypt ''wrong'' (password alice)"
    by (simp add: example_defs)
  note noUser = signIn_invalid_credentials
    [where repo = usersTable and st = onlyAlice and name = "''bob''", THEN conjunct1, rule_format]
  note badPass = signIn_invalid_credentials
    [where repo = usersTable and st = onlyAlice and name = "''alice''", THEN conjunct2, rule_format]
  show ?thesis
    by (rule conjI) (rule noUser [OF absent], rule badPass [OF present wrong])
qed

text \<open>
  C4: when \<^verbatim>\<open>save\<close> throws the store's uniqueness violation (an error object whose
  \<^verbatim>\<open>code\<close> is \<^verbatim>\<open>'23505'\<close>), \<open>signUp\<close> fails with the conflict exception, whatever
  the password; when \<^verbatim>\<open>save\<close> throws anything else, \<open>signUp\<close> fails with the internal
  server error; when \<^verbatim>\<open>save\<close> succeeds, \<open>signUp\<close> returns no value, only the new store.
\<close>

theorem signUp_outcomes:
  "(\<forall>ps. save repo (create name (bcrypt_hash bc pass salt)) st = Inl (JObject ps) \<longrightarrow>
        map_of ps ''code'' = Some (JString ''23505'') \<longrightarrow>
        signUp repo bc salt (AuthCredentialsDto name pass) st =
          Inl (HttpException (ConflictException (Some ''Username already exists''))))
   \<and> (\<forall>e. save repo (create name (bcrypt_hash bc pass salt)) st = Inl e \<longrightarrow>
        (\<forall>ps. e = JObject ps \<longrightarrow> map_of ps ''code'' \<noteq> Some (JString ''23505'')) \<longrightarrow>
        signUp repo bc salt (AuthCredentialsDto name pass) st =
          Inl (HttpException (InternalServerErrorException None)))
   \<and> (\<forall>st'. save repo (create name (bcrypt_hash bc pass salt)) st = Inr st' \<longrightarrow>
        signUp repo bc salt (AuthCredentialsDto name pass) st = Inr ((), st'))"
  by (auto simp: isDuplicateUsername_iff)

theorem signUp_outcomes_witness:
  "signUp usersTable plainBcrypt ''salt'' (AuthCredentialsDto ''alice'' ''An0ther!pw'') onlyAlice =
     Inl (HttpException (ConflictException (Some ''Username already exists'')))
   \<and> signUp (throwing (JObject [(''code'', JString ''ECONNREFUSED'')])) plainBcrypt ''salt''
        (AuthCredentialsDto ''alice'' ''Passw0rd!'') () =
     Inl (HttpException (InternalServerErrorException None))
   \<and> signUp usersTable plainBcrypt ''salt'' (AuthCredentialsDto ''alice'' ''Passw0rd!'') noUsers =
     Inr ((), onlyAlice)"
proof -
  have taken:
    "save usersTable (create ''alice'' (bcrypt_hash plainBcrypt ''An0ther!pw'' ''salt'')) onlyAlice
       = Inl (JObject [(''name'', JString ''QueryFailedError''), (''code'', JString ''23505'')])"
    by (simp add: example_defs)
  have code:
    "map_of [(''name'', JString ''QueryFailedError''), (''code'', JString ''23505'')] ''code''
       = Some (JString ''23505'')"
    by simp
  have down:
    "save (throwing (JObject [(''code'', JString ''ECONNREFUSED'')]))
        (create ''alice'' (bcrypt_hash plainBcrypt ''Passw0rd!'' ''salt'')) ()
       = Inl (JObject [(''code'', JString ''ECONNREFUSED'')])"
    by (simp add: example_defs)
  have other:
    "\<forall>ps. JObject [(''code'', JString ''ECONNREFUSED'')] = JObject ps \<longrightarrow>
        map_of ps ''code'' \<noteq> Some (JString ''23505'')"
    by auto
  have stored:
    "save usersTable (create ''alice'' (bcrypt_hash plainBcrypt ''Passw0rd!'' ''salt'')) noUsers
       = Inr onlyAlice"
    by (simp add: example_defs)
  note conflict = signUp_outcomes [THEN conjunct1, rule_format, OF taken code]
  note internal =
    signUp_outcomes [THEN conjunct2, THEN conjunct1, THEN spec, THEN mp, THEN mp, OF down other]
  note accepted = signUp_outcomes [THEN conjunct2, THEN conjunct2, rule_format, OF stored]
  show ?thesis
    by (intro conjI) (rule conflict, rule internal, rule accepted)
qed

text \<open>
  C5: over the users table, when no stored user has the username, \<open>signUp\<close> succeeds
  and stores that username with the bcrypt hash of the password. On the resulting
  store, \<open>signIn\<close> with that username answers by comparing the password it is given
  against that stored hash: it returns the token signed for the username when bcrypt
  verifies, and the unauthorized exception when it does not. So with the password of
  the sign-up, which bcrypt verifies against its own hash, \<open>signIn\<close> succeeds.
\<close>

theorem signUp_then_signIn:
  assumes fresh: "findOne usersTable st name = None"
  shows "\<exists>st' stored.
           signUp usersTable bc salt (AuthCredentialsDto name pass) st = Inr ((), st')
         \<and> findOne usersTable st' name = Some stored
         \<and> username stored = name
         \<and> password stored = bcrypt_hash bc pass salt
         \<and> (\<forall>attempt.
               signIn usersTable bc jwt (AuthCredentialsDto name attempt) st' =
                 (if bcrypt_compare bc attempt (bcrypt_hash bc pass salt)
                  then Inr \<lparr>accessToken = jwt_sign jwt [(''username'', JString name)]\<rparr>
                  else Inl (HttpException
                         (UnauthorizedException (Some ''Please check your login credentials'')))))
         \<and> (bcrypt_compare bc pass (bcrypt_hash bc pass salt) \<longrightarrow>
               signIn usersTable bc jwt (AuthCredentialsDto name pass) st' =
                 Inr \<lparr>accessToken = jwt_sign jwt [(''username'', JString name)]\<rparr>)"
proof -
  let ?u = "create name (bcrypt_hash bc pass salt)"
  let ?stored = "?u\<lparr>userId := Some (nextId st)\<rparr>"
  let ?st' = "\<lparr>rows = rows st @ [?stored], nextId = Suc (nextId st)\<rparr>"
  from fresh have none: "find (\<lambda>row. username row = name) (rows st) = None"
    by (simp add: usersTable_def table_findOne_def)
  then have saved: "save usersTable ?u st = Inr ?st'"
    by (simp add: usersTable_def table_save_def create_def)
  have up: "signUp usersTable bc salt (AuthCredentialsDto name pass) st = Inr ((), ?st')"
    using saved by simp
  have found: "findOne usersTable ?st' name = Some ?stored"
    using none by (simp add: usersTable_def table_findOne_def find_append_fresh create_def)
  have who: "username ?stored = name"
    by (simp add: create_def)
  have hash: "password ?stored = bcrypt_hash bc pass salt"
    by (simp add: create_def)
  have decided: "signIn usersTable bc jwt (AuthCredentialsDto name attempt) ?st' =
                 (if bcrypt_compare bc attempt (bcrypt_hash bc pass salt)
                  then Inr \<lparr>accessToken = jwt_sign jwt [(''username'', JString name)]\<rparr>
                  else Inl (HttpException
                         (UnauthorizedException (Some ''Please check your login credentials''))))"
    for attempt
    using found hash by simp
  from decided [of pass]
  have same: "bcrypt_compare bc pass (bcrypt_hash bc pass salt) \<longrightarrow>
               signIn usersTable bc jwt (AuthCredentialsDto name pass) ?st' =
                 Inr \<lparr>accessToken = jwt_sign jwt [(''username'', JString name)]\<rparr>"
    by simp
  from up found who hash decided same show ?thesis by blast
qed

theorem signUp_then_signIn_witness:
  "(\<exists>st' stored.
           signUp usersTable plainBcrypt ''salt'' (AuthCredentialsDto ''alice'' ''Passw0rd!'') noUsers
             = Inr ((), st')
         \<and> findOne usersTable st' ''alice'' = Some stored
         \<and> username stored = ''alice''
         \<and> password stored = bcrypt_hash plainBcrypt ''Passw0rd!'' ''salt''
         \<and> (\<forall>attempt.
               signIn usersTable plainBcrypt plainJwt (AuthCredentialsDto ''alice'' attempt) st' =
                 (if bcrypt_compare plainBcrypt attempt (bcrypt_hash plainBcrypt ''Passw0rd!'' ''salt'')
                  then Inr \<lparr>accessToken = jwt_sign plainJwt [(''username'', JString ''alice'')]\<rparr>
                  else Inl (HttpException
                         (UnauthorizedException (Some ''Please check your login credentials'')))))
         \<and> (bcrypt_compare plainBcrypt ''Passw0rd!'' (bcrypt_hash plainBcrypt ''Passw0rd!'' ''salt'') \<longrightarrow>
               signIn usersTable plainBcrypt plainJwt (AuthCredentialsDto ''alice'' ''Passw0rd!'') st' =
                 Inr \<lparr>accessToken = jwt_sign plainJwt [(''username'', JString ''alice'')]\<rparr>))
   \<and> bcrypt_compare plainBcrypt ''Passw0rd!'' (bcrypt_hash plainBcrypt ''Passw0rd!'' ''salt'')
   \<and> \<not> bcrypt_compare plainBcrypt ''wrong'' (bcrypt_hash plainBcrypt ''Passw0rd!'' ''salt'')"
proof -
  have fresh: "findOne usersTable noUsers ''alice'' = None"
    by (simp add: example_defs)
  have verifies:
    "bcrypt_compare plainBcrypt ''Passw0rd!'' (bcrypt_hash plainBcrypt ''Passw0rd!'' ''salt'')"
    by (simp add: example_defs)
  have refuses:
    "\<not> bcrypt_compare plainBcrypt ''wrong'' (bcrypt_hash plainBcrypt ''Passw0rd!'' ''salt'')"
    by (simp add: example_defs)
  note roundTrip = signUp_then_signIn
    [where bc = plainBcrypt and salt = "''salt''" and pass = "''Passw0rd!''" and jwt = plainJwt,
     OF fresh]
  show ?thesis
    by (rule conjI [OF roundTrip conjI [OF verifies refuses]])
qed

text \<open>
  C6, at the input where the code departs from it. The first half holds: the token of
  a successful \<open>signIn\<close> is the JWT service's signature of a payload whose only claim
  is the username that signed in. The second half does not: a task route answers a
  request that presents this token exactly as it answers the same request with no
  authorization header and no user, so nothing resolves the token to a username.
\<close>

theorem signIn_token_is_not_resolved:
  "(signIn repo bc jwt (AuthCredentialsDto name pass) st = Inr r \<longrightarrow>
      accessToken r = jwt_sign jwt [(''username'', JString name)]
      \<and> Object_keys [(''username'', JString name)] = [''username''])
   \<and> TasksController svc
        (req\<lparr>headers := [(''authorization'', ''Bearer '' @ token)]\<rparr>) operation store =
     TasksController svc (req\<lparr>headers := [], user := None\<rparr>) operation store"
proof -
  have payload: "signIn repo bc jwt (AuthCredentialsDto name pass) st = Inr r \<longrightarrow>
      accessToken r = jwt_sign jwt [(''username'', JString name)]
      \<and> Object_keys [(''username'', JString name)] = [''username'']"
    by (auto simp: Object_keys_def split: option.splits if_splits)
  have ignored: "TasksController svc
        (req\<lparr>headers := [(''authorization'', ''Bearer '' @ token)]\<rparr>) operation store =
     TasksController svc (req\<lparr>headers := [], user := None\<rparr>) operation store"
    by (cases operation) simp_all
  from payload ignored show ?thesis by (rule conjI)
qed

theorem signIn_token_is_not_resolved_witness:
  "accessToken \<lparr>accessToken = ''jwt.alice''\<rparr> =
     jwt_sign plainJwt [(''username'', JString ''alice'')]
   \<and> Object_keys [(''username'', JString ''alice'')] = [''username'']"
proof -
  have signedIn:
    "signIn usersTable plainBcrypt plainJwt (AuthCredentialsDto ''alice'' ''Passw0rd!'') onlyAlice
       = Inr \<lparr>accessToken = ''jwt.alice''\<rparr>"
    by (simp add: example_defs)
  show ?thesis
    by (rule signIn_token_is_not_resolved [THEN conjunct1, THEN mp, OF signedIn])
qed

text \<open>
  C9: when \<^verbatim>\<open>save\<close> throws a value that is not an object with a \<^verbatim>\<open>code\<close> property
  strictly equal to the string \<^verbatim>\<open>'23505'\<close> (a value that is no object, an object
  without a code, an object whose code is the number 23505), \<open>signUp\<close> fails with the
  internal server error, and what it throws is never the store's own value.
\<close>

theorem signUp_store_error_is_internal:
  assumes thrown: "save repo (create name (bcrypt_hash bc pass salt)) st = Inl e"
      and other: "\<forall>ps. e = JObject ps \<longrightarrow> map_of ps ''code'' \<noteq> Some (JString ''23505'')"
  shows "signUp repo bc salt (AuthCredentialsDto name pass) st =
           Inl (HttpException (InternalServerErrorException None))
       \<and> (\<forall>v. signUp repo bc salt (AuthCredentialsDto name pass) st \<noteq> Inl (Raw v))"
  using thrown other by (auto simp: isDuplicateUsername_iff)

theorem signUp_store_error_is_internal_witness:
  "(signUp (throwing (JString ''connection lost'')) plainBcrypt ''salt''
        (AuthCredentialsDto ''alice'' ''Passw0rd!'') () =
      Inl (HttpException (InternalServerErrorException None))
    \<and> (\<forall>v. signUp (throwing (JString ''connection lost'')) plainBcrypt ''salt''
        (AuthCredentialsDto ''alice'' ''Passw0rd!'') () \<noteq> Inl (Raw v)))
   \<and> (signUp (throwing (JObject [(''message'', JString ''timeout'')])) plainBcrypt ''salt''
        (AuthCredentialsDto ''alice'' ''Passw0rd!'') () =
      Inl (HttpException (InternalServerErrorException None))
    \<and> (\<forall>v. signUp (throwing (JObject [(''message'', JString ''timeout'')])) plainBcrypt ''salt''
        (AuthCredentialsDto ''alice'' ''Passw0rd!'') () \<noteq> Inl (Raw v)))
   \<and> (signUp (throwing (JObject [(''code'', JNumber 23505)])) plainBcrypt ''salt''
        (AuthCredentialsDto ''alice'' ''Passw0rd!'') () =
      Inl (HttpException (InternalServerErrorException None))
    \<and> (\<forall>v. signUp (throwing (JObject [(''code'', JNumber 23505)])) plainBcrypt ''salt''
        (AuthCredentialsDto ''alice'' ''Passw0rd!'') () \<noteq> Inl (Raw v)))"
proof -
  have noObject:
    "\<forall>ps. JString ''connection lost'' = JObject ps \<longrightarrow>
        map_of ps ''code'' \<noteq> Some (JString ''23505'')"
    by simp
  have noCode:
    "\<forall>ps. JObject [(''message'', JString ''timeout'')] = JObject ps \<longrightarrow>
        map_of ps ''code'' \<noteq> Some (JString ''23505'')"
    by auto
  have numeric:
    "\<forall>ps. JObject [(''code'', JNumber 23505)] = JObject ps \<longrightarrow>
        map_of ps ''code'' \<noteq> Some (JString ''23505'')"
    by auto
  have throws:
    "\<And>e user. save (throwing e) user () = Inl e"
    by (simp add: throwing_def)
  note plain = signUp_store_error_is_internal [OF throws noObject]
  note codeless = signUp_store_error_is_internal [OF throws noCode]
  note number = signUp_store_error_is_internal [OF throws numeric]
  show ?thesis
    by (rule conjI [OF plain conjI [OF codeless number]])
qed

section \<open>The task routes\<close>

text \<open>
  C10: \<open>getTasks\<close> hands the request to the filtered query exactly when the filter
  object has at least one key, and to the query for all tasks exactly when it has
  none, whatever the service is; a filter object whose only key is one the service
  does not know still goes to the filtered query.
\<close>

theorem getTasks_dispatch:
  "TasksController_getTasks (svc :: 's TasksService) filtersDto =
     (if Object_keys filtersDto \<noteq> [] then getTaskWithFilters svc filtersDto else getAllTasks svc)
   \<and> ((\<forall>(s :: 's TasksService) st.
          TasksController_getTasks s filtersDto st = getTaskWithFilters s filtersDto st)
        \<longleftrightarrow> Object_keys filtersDto \<noteq> [])
   \<and> ((\<forall>(s :: 's TasksService) st.
          TasksController_getTasks s filtersDto st = getAllTasks s st)
        \<longleftrightarrow> Object_keys filtersDto = [])
   \<and> TasksController_getTasks svc [(''colour'', JString ''red'')] =
       getTaskWithFilters svc [(''colour'', JString ''red'')]"
proof -
  let ?split = "\<lparr>getTaskWithFilters = (\<lambda>dto st. (Inr JNull, st)),
                 getAllTasks = (\<lambda>st. (Inr JUndefined, st)),
                 createTask = (\<lambda>dto st. (Inr JUndefined, st)),
                 getTaskById = (\<lambda>i st. (Inr JUndefined, st)),
                 removeTask = (\<lambda>i st. (Inr JUndefined, st)),
                 updateTaskStatus = (\<lambda>i v st. (Inr JUndefined, st))\<rparr> :: 's TasksService"
  have eq: "TasksController_getTasks s filtersDto =
     (if Object_keys filtersDto \<noteq> [] then getTaskWithFilters s filtersDto else getAllTasks s)"
    for s :: "'s TasksService"
    by (simp add: TasksController_getTasks_def)
  have differ: "getTaskWithFilters ?split filtersDto st \<noteq> getAllTasks ?split st" for st
    by simp
  have filtered: "(\<forall>(s :: 's TasksService) st.
          TasksController_getTasks s filtersDto st = getTaskWithFilters s filtersDto st)
        \<longleftrightarrow> Object_keys filtersDto \<noteq> []"
  proof
    assume all: "\<forall>(s :: 's TasksService) st.
          TasksController_getTasks s filtersDto st = getTaskWithFilters s filtersDto st"
    show "Object_keys filtersDto \<noteq> []"
    proof
      assume "Object_keys filtersDto = []"
      with eq [of ?split] have "TasksController_getTasks ?split filtersDto = getAllTasks ?split"
        by simp
      with all differ show False by metis
    qed
  next
    assume "Object_keys filtersDto \<noteq> []"
    with eq show "\<forall>(s :: 's TasksService) st.
          TasksController_getTasks s filtersDto st = getTaskWithFilters s filtersDto st"
      by simp
  qed
  have unfiltered: "(\<forall>(s :: 's TasksService) st.
          TasksController_getTasks s filtersDto st = getAllTasks s st)
        \<longleftrightarrow> Object_keys filtersDto = []"
  proof
    assume all: "\<forall>(s :: 's TasksService) st.
          TasksController_getTasks s filtersDto st = getAllTasks s st"
    show "Object_keys filtersDto = []"
    proof (rule ccontr)
      assume "Object_keys filtersDto \<noteq> []"
      with eq [of ?split]
      have "TasksController_getTasks ?split filtersDto = getTaskWithFilters ?split filtersDto"
        by simp
      with all differ show False by metis
    qed
  next
    assume "Object_keys filtersDto = []"
    with eq show "\<forall>(s :: 's TasksService) st.
          TasksController_getTasks s filtersDto st = getAllTasks s st"
      by simp
  qed
  have unknown: "TasksController_getTasks svc [(''colour'', JString ''red'')] =
       getTaskWithFilters svc [(''colour'', JString ''red'')]"
    by (simp add: TasksController_getTasks_def Object_keys_def)
  from eq filtered unfiltered unknown show ?thesis by blast
qed

text \<open>
  C1, at the input where the code departs from it: a caller B sends the get, the
  status update, the delete or the list request for a task id that caller A's task
  has. The handler hands the service the id (with the new status) or the filter and
  nothing else, so B's request evaluates to the very service call A's request does,
  whatever the service and the store are: B receives the task A receives, and B's
  update and delete act on it.
\<close>

theorem other_caller_reaches_the_task:
  "TasksController svc (req\<lparr>headers := headersB, user := Some callerB\<rparr>) (GetById i) st =
     getTaskById svc i st
   \<and> TasksController svc (req\<lparr>headers := headersB, user := Some callerB\<rparr>) (UpdateTaskStatus i) st =
     updateTaskStatus svc i (get_property (JObject (body req)) ''status'') st
   \<and> TasksController svc (req\<lparr>headers := headersB, user := Some callerB\<rparr>) (RemoveTask i) st =
     removeTask svc i st
   \<and> TasksController svc (req\<lparr>headers := headersB, user := Some callerB\<rparr>) operation st =
     TasksController svc (req\<lparr>headers := headersA, user := Some callerA\<rparr>) operation st"
  by (cases operation)
     (simp_all add: TasksController_getById_def TasksController_updateTaskStatus_def
        TasksController_removeTask_def)

text \<open>
  C2, at the input where the code departs from it: a task request with no
  authorization header and no user, or with any other headers. For each of the five
  operations the handler runs on it, and its response is the response to the same
  request under whatever headers and user: no check answers before the handler.
\<close>

theorem unauthenticated_request_reaches_handler:
  "TasksController svc (req\<lparr>headers := [], user := None\<rparr>) GetTasks =
     TasksController_getTasks svc (query req)
   \<and> TasksController svc (req\<lparr>headers := [], user := None\<rparr>) CreateTask =
     TasksController_createTask svc (body req)
   \<and> TasksController svc (req\<lparr>headers := [], user := None\<rparr>) (GetById i) =
     TasksController_getById svc i
   \<and> TasksController svc (req\<lparr>headers := [], user := None\<rparr>) (UpdateTaskStatus i) =
     TasksController_updateTaskStatus svc i (get_property (JObject (body req)) ''status'')
   \<and> TasksController svc (req\<lparr>headers := [], user := None\<rparr>) (RemoveTask i) =
     TasksController_removeTask svc i
   \<and> TasksController svc (req\<lparr>headers := [], user := None\<rparr>) operation =
     TasksController svc req operation
   \<and> TasksController svc (req\<lparr>headers := otherHeaders\<rparr>) operation =
     TasksController svc req operation"
  by (cases operation) simp_all

text \<open>
  C7, at the input where the code departs from it: a create request from an
  authenticated caller. The handler hands the service the body and nothing else, so
  the service is not told the caller and the call is the same whoever sends the
  request; what status the created task has is decided by the service alone.
\<close>

theorem createTask_is_not_told_the_caller:
  "TasksController svc (req\<lparr>headers := headersA, user := Some caller\<rparr>) CreateTask st =
     createTask svc (body req) st
   \<and> TasksController svc (req\<lparr>headers := headersA, user := Some caller\<rparr>) CreateTask st =
     TasksController svc (req\<lparr>headers := headersB, user := Some other\<rparr>) CreateTask st"
  by (simp add: TasksController_createTask_def)

text \<open>
  C8, at the input where the code departs from it: a list request from an
  authenticated caller. With an empty filter object the handler's result is the
  service's answer for all tasks, with any other filter object the service's answer
  for that filter; the service is handed no caller in either case, so the list is the
  same whoever sends the request.
\<close>

theorem getTasks_is_not_told_the_caller:
  "TasksController svc (req\<lparr>headers := headersA, user := Some caller\<rparr>) GetTasks st =
     (if Object_keys (query req) = [] then getAllTasks svc st
      else getTaskWithFilters svc (query req) st)
   \<and> TasksController svc (req\<lparr>headers := headersA, user := Some caller\<rparr>) GetTasks st =
     TasksController svc (req\<lparr>headers := headersB, user := Some other\<rparr>) GetTasks st"
  by (simp add: TasksController_getTasks_def)

end
